theory Spec2Isabelle
  imports Main "HOL-Library.Sublist" "HOL-Library.AList" "HOL-Library.List_Lexorder"
    "HOL-Library.Char_ord"
begin

section \<open>Data model\<close>

subsection \<open>Python values, errors and pandas frames\<close>

text \<open>
  Exceptions are values: every function that can raise returns \<open>error + 'a\<close>, with
  \<open>Inl\<close> the exception. \<open>ServiceError\<close> stands for whatever an external collaborator
  (data service, operation implementation) raises.
\<close>

datatype error = KeyError | ValueError | TypeError | AttributeError | ServiceError

text \<open>A cell of a frame, or a scalar operation result.\<close>

datatype cell = PyNone | NaN | PyBool bool | PyInt int | PyStr string

text \<open>
  A pandas DataFrame with the default positional index \<open>0, \<dots>, index_len - 1\<close>: the
  ordered columns, each a list of cells. Column labels are strings.
\<close>

record dataframe =
  index_len :: nat
  cols :: "(string \<times> cell list) list"

text \<open>
  What an operation returns: a scalar, a pandas Series (default index) or, for a grouped
  operation, a DataFrame keyed by the grouping columns.
\<close>

datatype op_result = Scalar cell | Series "cell list" | Frame dataframe

subsection \<open>Rules\<close>

text \<open>
  The rule dictionary of \<^verbatim>\<open>rule_processor.py\<close>. A key that the code reads with
  \<^verbatim>\<open>.get(key, default)\<close> is a field holding the default when the key is absent; a key
  read with \<^verbatim>\<open>rule.get(key) or {}\<close> is optional.
\<close>

record domains =
  d_Include :: "string list"
  d_Exclude :: "string list"
  include_split_datasets :: "bool option"

record classes =
  c_Include :: "string list"
  c_Exclude :: "string list"

text \<open>
  An operation declaration: id, operator name, output column name, optional domain
  override, optional grouping-column list.
\<close>

record operation =
  op_id :: string
  op_operator :: string
  op_name :: string
  op_domain :: "string option"
  op_group :: "string list option"

text \<open>
  A leaf condition is a dictionary with an optional \<^verbatim>\<open>operator\<close>, an optional \<^verbatim>\<open>value\<close>
  dictionary (keys \<^verbatim>\<open>target\<close>, \<^verbatim>\<open>comparator\<close>, \<^verbatim>\<open>unit\<close>, \<dots>) and further keys. A
  dictionary is an association list in insertion order; \<open>map_of\<close> reads a key and
  \<open>AList.update\<close> assigns one (in place when the key exists, appended otherwise).
\<close>

type_synonym pydict = "(string \<times> string) list"

record condition =
  c_operator :: "string option"
  c_value :: "pydict option"
  c_other :: pydict

text \<open>
  Modelled from the spec: the classes behind \<^verbatim>\<open>ConditionInterface\<close> and
  \<^verbatim>\<open>ConditionCompositeFactory\<close> (cdisc_rules_engine.models.rule_conditions) are not part
  of the sources at hand. Section 3 of the specification describes the condition tree
  as a composite node, tagged with a key such as \<^verbatim>\<open>any\<close> or \<^verbatim>\<open>all\<close> and holding an
  ordered sequence of child nodes, or a leaf. A composite is the ordered list of its
  branches (key and children); a rule's \<^verbatim>\<open>conditions\<close> entry is a composite.
\<close>

datatype node = Single condition | Nested "branch list"
  and branch = Branch string "node list"

record rule =
  r_domains :: "domains option"
  r_classes :: "classes option"
  conditions :: "branch list option"
  operations :: "operation list"
  output_variables :: "string list"

subsection \<open>Operation parameters, collaborators and the observable world\<close>

text \<open>A dataset descriptor: domain code and file name.\<close>

record descriptor =
  d_domain :: string
  d_filename :: string

text \<open>
  Modelled from the spec: \<^verbatim>\<open>OperationParams\<close> (cdisc_rules_engine.models) is not part of
  the sources at hand; section 6 of the specification calls it a structured parameter
  bundle. Its fields are the keyword arguments that \<^verbatim>\<open>perform_rule_operations\<close> passes,
  held as passed (the grouping list is the very list of the rule).
\<close>

record operation_params =
  operation_id :: string
  operation_name :: string
  dataframe :: dataframe
  target :: string
  domain :: string
  dataset_path :: string
  directory_path :: string
  datasets :: "descriptor list"
  grouping :: "string list"
  standard :: string
  standard_version :: string
  meddra_path :: "string option"
  whodrug_path :: "string option"

text \<open>
  The external collaborators, taken as parameters: the data service, the registry of
  operation implementations (\<^verbatim>\<open>getattr(data_processor, name, None)\<close>), the placeholder
  mode test \<^verbatim>\<open>DataProcessor.is_dummy_data\<close> and the path helper
  \<^verbatim>\<open>get_directory_path\<close>.
\<close>

record services =
  get_dataset :: "string \<Rightarrow> error + dataframe"
  get_dataset_class :: "dataframe \<Rightarrow> string \<Rightarrow> descriptor list \<Rightarrow> error + string option"
  is_dummy_data :: bool
  data_processor :: "string \<Rightarrow> (operation_params \<Rightarrow> error + op_result) option"
  get_directory_path :: "string \<Rightarrow> string"

text \<open>
  Modelled from the spec: \<^verbatim>\<open>get_operations_cache_key\<close> (cdisc_rules_engine.utilities.utils)
  is not part of the sources at hand. Section 3 of the specification derives the
  signature deterministically from directory path, operation name, domain, joined
  grouping columns and target column; the key is the tuple of the five.
\<close>

type_synonym cache_key = "string \<times> string \<times> string \<times> string \<times> string"

definition get_operations_cache_key ::
  "string \<Rightarrow> string \<Rightarrow> string \<Rightarrow> string \<Rightarrow> string \<Rightarrow> cache_key" where
  "get_operations_cache_key directory_path' operation_name' domain' grouping' target_variable =
     (directory_path', operation_name', domain', grouping', target_variable)"

text \<open>
  What a run can observe of the collaborators: the cache contents and the trace of
  calls made to the data service and to operation implementations.
\<close>

datatype event =
  DatasetFetched string
  | ClassFetched string
  | OperationCalled string string

text \<open>
  Modelled from the spec: the cache service behind \<^verbatim>\<open>CacheServiceInterface\<close> is abstract
  in the sources; section 6 of the specification gives \<^verbatim>\<open>get(key) -> value|absent\<close> and
  \<^verbatim>\<open>add(key, value)\<close>. The cache is a map from keys to results.
\<close>

record world =
  cache :: "cache_key \<Rightarrow> op_result option"
  trace :: "event list"

section \<open>Rule applicability: the domain gate\<close>

text \<open>
  Modelled from the spec: the constants \<^verbatim>\<open>SUPPLEMENTARY_DOMAINS\<close>, \<^verbatim>\<open>AP_DOMAIN\<close>,
  \<^verbatim>\<open>APFA_DOMAIN\<close> (cdisc_rules_engine.constants.domains) and the helpers
  \<^verbatim>\<open>is_supp_domain\<close>, \<^verbatim>\<open>is_ap_domain\<close> (cdisc_rules_engine.utilities.utils) are not
  part of the sources at hand. Section 4.1 of the specification describes the
  supplementary family as the \<^verbatim>\<open>SUPP\<close>-prefixed domains with the generic entry
  \<^verbatim>\<open>SUPP--\<close>, and the associated-persons family as the domains prefixed \<^verbatim>\<open>AP\<close> or
  \<^verbatim>\<open>APFA\<close>, or the literal \<^verbatim>\<open>APRELSUB\<close>, with the generic entries \<^verbatim>\<open>AP--\<close> and
  \<^verbatim>\<open>APFA--\<close>.
\<close>

definition SUPPLEMENTARY_DOMAINS :: "string list" where
  "SUPPLEMENTARY_DOMAINS = [''SUPP'']"

definition AP_DOMAIN :: string where
  "AP_DOMAIN = ''AP''"

definition APFA_DOMAIN :: string where
  "APFA_DOMAIN = ''APFA''"

definition is_supp_domain :: "string \<Rightarrow> bool" where
  "is_supp_domain dataset_domain = list_ex (\<lambda>p. prefix p dataset_domain) SUPPLEMENTARY_DOMAINS"

definition is_ap_domain :: "string \<Rightarrow> bool" where
  "is_ap_domain dataset_domain =
     (prefix AP_DOMAIN dataset_domain \<or> prefix APFA_DOMAIN dataset_domain
      \<or> dataset_domain = ''APRELSUB'')"

text \<open>\<^verbatim>\<open>RuleProcessor._domain_in_supp_domains\<close>.\<close>

definition domain_in_supp_domains :: "string list \<Rightarrow> bool" where
  "domain_in_supp_domains ds =
     (let supp_domains = map (\<lambda>d. d @ ''--'') SUPPLEMENTARY_DOMAINS
      in list_ex (\<lambda>d. d \<in> set supp_domains) ds)"

text \<open>
  The two family-pattern tests that \<^verbatim>\<open>rule_applies_to_domain\<close> computes, once for the
  included and once for the excluded list.
\<close>

definition matches_supp_naming_pattern :: "string \<Rightarrow> string list \<Rightarrow> bool" where
  "matches_supp_naming_pattern dataset_domain ds =
     (is_supp_domain dataset_domain \<and> domain_in_supp_domains ds)"

definition matches_ap_naming_pattern :: "string \<Rightarrow> string list \<Rightarrow> bool" where
  "matches_ap_naming_pattern dataset_domain ds =
     list_ex (\<lambda>d. is_ap_domain dataset_domain
                 \<and> d \<in> set [AP_DOMAIN @ ''--'', APFA_DOMAIN @ ''--'']) ds"

text \<open>
  \<^verbatim>\<open>RuleProcessor.rule_applies_to_domain\<close>. The rule's \<^verbatim>\<open>domains\<close> entry is read as
  the empty dictionary when absent. The assignments to \<^verbatim>\<open>is_included\<close> and
  \<^verbatim>\<open>is_excluded\<close> are kept in the order of the code.
\<close>

definition rule_applies_to_domain :: "string \<Rightarrow> rule \<Rightarrow> bool \<Rightarrow> bool" where
  "rule_applies_to_domain dataset_domain rule is_split_domain =
     (let included_domains = (case r_domains rule of None \<Rightarrow> [] | Some d \<Rightarrow> d_Include d);
          excluded_domains = (case r_domains rule of None \<Rightarrow> [] | Some d \<Rightarrow> d_Exclude d);
          split_flag = (case r_domains rule of None \<Rightarrow> None | Some d \<Rightarrow> include_split_datasets d);
          is_included1 =
            (if included_domains \<noteq> [] then
               (if dataset_domain \<notin> set included_domains \<and> ''All'' \<notin> set included_domains then
                  (if \<not> (matches_supp_naming_pattern dataset_domain included_domains
                          \<or> matches_ap_naming_pattern dataset_domain included_domains)
                   then False else True)
                else True)
             else if split_flag = Some True \<and> \<not> is_split_domain then False
             else True);
          is_excluded1 =
            (if excluded_domains \<noteq> [] then
               (let is_excluded0 =
                      (dataset_domain \<in> set excluded_domains \<or> ''All'' \<in> set excluded_domains)
                in if matches_supp_naming_pattern dataset_domain excluded_domains
                      \<or> matches_ap_naming_pattern dataset_domain excluded_domains
                   then True else is_excluded0)
             else False);
          is_included2 =
            (if split_flag = Some True \<and> is_split_domain \<and> \<not> is_excluded1
             then True else is_included1);
          is_excluded2 =
            (if split_flag = Some False \<and> is_split_domain then True else is_excluded1)
      in is_included2 \<and> \<not> is_excluded2)"

section \<open>Rule applicability: the class gate\<close>

text \<open>
  \<^verbatim>\<open>data_service.get_dataset\<close>: the call is recorded in the trace, then answered by the
  collaborator.
\<close>

definition data_service_get_dataset ::
  "services \<Rightarrow> world \<Rightarrow> string \<Rightarrow> world \<times> (error + dataframe)" where
  "data_service_get_dataset sv w dataset_name =
     (w\<lparr>trace := trace w @ [DatasetFetched dataset_name]\<rparr>, get_dataset sv dataset_name)"

text \<open>
  The two statements that both branches of \<^verbatim>\<open>rule_applies_to_class\<close> repeat: load the
  dataset of \<^verbatim>\<open>file_path\<close>, then ask the data service for its class.
\<close>

definition fetch_dataset_class ::
  "services \<Rightarrow> world \<Rightarrow> string \<Rightarrow> descriptor list \<Rightarrow> world \<times> (error + string option)" where
  "fetch_dataset_class sv w file_path descriptors =
     (case data_service_get_dataset sv w file_path of
        (w1, Inl e) \<Rightarrow> (w1, Inl e)
      | (w1, Inr dataset) \<Rightarrow>
          (w1\<lparr>trace := trace w1 @ [ClassFetched file_path]\<rparr>,
           get_dataset_class sv dataset file_path descriptors))"

text \<open>
  \<^verbatim>\<open>RuleProcessor.rule_applies_to_class\<close>. The constant \<^verbatim>\<open>DETECTABLE_CLASSES\<close>
  (cdisc_rules_engine.constants.classes) is not part of the sources at hand and is a
  parameter. A class name is \<open>None\<close> when the data service detects none. The two lists
  the function works on come first: the included classes that are detectable, and the
  excluded classes as declared.
\<close>

definition detectable_included_classes :: "string list \<Rightarrow> rule \<Rightarrow> string list" where
  "detectable_included_classes DETECTABLE_CLASSES rule =
     filter (\<lambda>c. c \<in> set DETECTABLE_CLASSES)
       (case r_classes rule of None \<Rightarrow> [] | Some c \<Rightarrow> c_Include c)"

definition excluded_classes_of :: "rule \<Rightarrow> string list" where
  "excluded_classes_of rule = (case r_classes rule of None \<Rightarrow> [] | Some c \<Rightarrow> c_Exclude c)"

definition rule_applies_to_class ::
  "string list \<Rightarrow> services \<Rightarrow> world \<Rightarrow> rule \<Rightarrow> string \<Rightarrow> descriptor list
     \<Rightarrow> world \<times> (error + bool)" where
  "rule_applies_to_class DETECTABLE_CLASSES sv w rule file_path descriptors =
     (let included_classes = detectable_included_classes DETECTABLE_CLASSES rule;
          excluded_classes = excluded_classes_of rule
      in case (if included_classes \<noteq> [] then
                 (case fetch_dataset_class sv w file_path descriptors of
                    (w1, Inl e) \<Rightarrow> (w1, Inl e)
                  | (w1, Inr class_name) \<Rightarrow>
                      (w1, Inr (if (case class_name of None \<Rightarrow> True
                                                    | Some c \<Rightarrow> c \<notin> set included_classes)
                                   \<and> ''All'' \<notin> set included_classes
                                then False else True)))
               else (w, Inr True)) of
           (w1, Inl e) \<Rightarrow> (w1, Inl e)
         | (w1, Inr is_included) \<Rightarrow>
             (case (if excluded_classes \<noteq> [] then
                      (case fetch_dataset_class sv w1 file_path descriptors of
                         (w2, Inl e) \<Rightarrow> (w2, Inl e)
                       | (w2, Inr class_name) \<Rightarrow>
                           (w2, Inr (case class_name of None \<Rightarrow> False
                                     | Some c \<Rightarrow> c \<noteq> [] \<and> c \<in> set excluded_classes)))
                    else (w1, Inr False)) of
                (w2, Inl e) \<Rightarrow> (w2, Inl e)
              | (w2, Inr is_excluded) \<Rightarrow> (w2, Inr (is_included \<and> \<not> is_excluded))))"

text \<open>How many times a trace asked the data service for a dataset class.\<close>

definition class_fetches :: "event list \<Rightarrow> nat" where
  "class_fetches evs = length (filter (\<lambda>ev. case ev of ClassFetched _ \<Rightarrow> True | _ \<Rightarrow> False) evs)"

section \<open>pandas operations used by the operation executor\<close>

text \<open>
  The cell at position \<open>i\<close> of a column; pandas fills positions that a shorter column
  does not cover with NaN.
\<close>

definition cell_at :: "cell list \<Rightarrow> nat \<Rightarrow> cell" where
  "cell_at vs i = (if i < length vs then vs ! i else NaN)"

text \<open>\<^verbatim>\<open>name in df\<close>: membership in the column labels.\<close>

definition df_contains :: "dataframe \<Rightarrow> string \<Rightarrow> bool" where
  "df_contains df name = (map_of (cols df) name \<noteq> None)"

text \<open>\<^verbatim>\<open>df[name]\<close> for a single label: the column, or KeyError.\<close>

definition df_getitem :: "dataframe \<Rightarrow> string \<Rightarrow> error + cell list" where
  "df_getitem df name = (case map_of (cols df) name of None \<Rightarrow> Inl KeyError | Some vs \<Rightarrow> Inr vs)"

text \<open>
  \<^verbatim>\<open>series[0]\<close> on the default index: the label 0 exists exactly when the series has a
  first element; otherwise pandas raises KeyError.
\<close>

definition series_getitem0 :: "cell list \<Rightarrow> error + cell" where
  "series_getitem0 vs = (case vs of [] \<Rightarrow> Inl KeyError | v # _ \<Rightarrow> Inr v)"

text \<open>
  \<^verbatim>\<open>df[key]\<close> where \<^verbatim>\<open>key\<close> is a list of labels or Python's \<^verbatim>\<open>None\<close> (\<open>None\<close> here).
  No column is labelled \<^verbatim>\<open>None\<close>, so that lookup raises KeyError, as does a list
  naming a missing column.
\<close>

definition df_getitem_list :: "dataframe \<Rightarrow> string list option \<Rightarrow> error + dataframe" where
  "df_getitem_list df key =
     (case key of
        None \<Rightarrow> Inl KeyError
      | Some names \<Rightarrow>
          if list_all (df_contains df) names
          then Inr (df\<lparr>cols := map (\<lambda>n. (n, case map_of (cols df) n of None \<Rightarrow> [] | Some vs \<Rightarrow> vs))
                                   names\<rparr>)
          else Inl KeyError)"

text \<open>
  \<^verbatim>\<open>result.rename(columns={old: new})\<close>. Only a DataFrame has that method with that
  keyword: a scalar has no \<^verbatim>\<open>rename\<close> attribute and \<^verbatim>\<open>Series.rename\<close> rejects the keyword.
\<close>

definition rename_columns :: "op_result \<Rightarrow> string \<Rightarrow> string \<Rightarrow> error + dataframe" where
  "rename_columns result old new =
     (case result of
        Scalar _ \<Rightarrow> Inl AttributeError
      | Series _ \<Rightarrow> Inl TypeError
      | Frame df \<Rightarrow> Inr (df\<lparr>cols := map (\<lambda>(n, vs). (if n = old then new else n, vs)) (cols df)\<rparr>))"

text \<open>The values of the key columns \<open>on\<close> in row \<open>i\<close>.\<close>

definition row_key :: "dataframe \<Rightarrow> string list \<Rightarrow> nat \<Rightarrow> cell list" where
  "row_key df on i =
     map (\<lambda>k. case map_of (cols df) k of None \<Rightarrow> NaN | Some vs \<Rightarrow> cell_at vs i) on"

text \<open>
  \<^verbatim>\<open>left.merge(right, on=on, how="left")\<close>: every left row, in order, paired with each
  right row of equal key, or with NaN cells when there is none. Key columns must exist
  on both sides. A non-key label present on both sides gets the suffixes \<^verbatim>\<open>_x\<close> and
  \<^verbatim>\<open>_y\<close>.
\<close>

definition merge_pairs :: "dataframe \<Rightarrow> dataframe \<Rightarrow> string list \<Rightarrow> (nat \<times> nat option) list" where
  "merge_pairs left right on =
     concat (map (\<lambda>i. let ms = filter (\<lambda>j. row_key right on j = row_key left on i)
                                        [0 ..< index_len right]
                        in if ms = [] then [(i, None)] else map (\<lambda>j. (i, Some j)) ms)
                 [0 ..< index_len left])"

definition df_merge_left :: "dataframe \<Rightarrow> dataframe \<Rightarrow> string list \<Rightarrow> error + dataframe" where
  "df_merge_left left right on =
     (if on = [] then Inl ValueError
      else if \<not> list_all (\<lambda>k. df_contains left k \<and> df_contains right k) on then Inl KeyError
      else
        (let pairs = merge_pairs left right on;
             lcols = map (\<lambda>(n, vs). (if n \<notin> set on \<and> df_contains right n then n @ ''_x'' else n,
                                     map (\<lambda>(i, j). cell_at vs i) pairs))
                         (cols left);
             rcols = map (\<lambda>(n, vs). (if df_contains left n then n @ ''_y'' else n,
                                     map (\<lambda>(i, j). case j of None \<Rightarrow> NaN | Some j' \<Rightarrow> cell_at vs j')
                                         pairs))
                         (filter (\<lambda>(n, vs). n \<notin> set on) (cols right))
         in Inr \<lparr>index_len = length pairs, cols = lcols @ rcols\<rparr>))"

text \<open>
  Assigning a column of values \<open>vs\<close> under the label \<open>name\<close>, aligned on the index:
  positions beyond \<open>vs\<close> hold NaN, values beyond the index are dropped. A frame with an
  empty index takes over the index of a non-empty value first.
\<close>

definition set_series :: "dataframe \<Rightarrow> string \<Rightarrow> cell list \<Rightarrow> dataframe" where
  "set_series df name vs =
     (let df1 = (if index_len df = 0 \<and> vs \<noteq> []
                 then \<lparr>index_len = length vs,
                       cols = map (\<lambda>(n, _). (n, replicate (length vs) NaN)) (cols df)\<rparr>
                 else df)
      in df1\<lparr>cols := AList.update name (map (cell_at vs) [0 ..< index_len df1]) (cols df1)\<rparr>)"

text \<open>
  \<^verbatim>\<open>df[name] = result\<close>: a scalar fills the column, a Series is aligned on the index, a
  DataFrame must have exactly one column, which is then assigned like a Series.
\<close>

definition df_setitem :: "dataframe \<Rightarrow> string \<Rightarrow> op_result \<Rightarrow> error + dataframe" where
  "df_setitem df name result =
     (case result of
        Scalar c \<Rightarrow> Inr (df\<lparr>cols := AList.update name (replicate (index_len df) c) (cols df)\<rparr>)
      | Series vs \<Rightarrow> Inr (set_series df name vs)
      | Frame f \<Rightarrow> (case cols f of [(n, vs)] \<Rightarrow> Inr (set_series df name vs) | _ \<Rightarrow> Inl ValueError))"

text \<open>
  The truth value Python computes for \<^verbatim>\<open>if result:\<close>. \<^verbatim>\<open>None\<close>, \<^verbatim>\<open>False\<close>, zero and the
  empty string are false, NaN is true; a pandas Series or DataFrame refuses the test
  with ValueError.
\<close>

definition truth_value :: "op_result \<Rightarrow> error + bool" where
  "truth_value result =
     (case result of
        Scalar PyNone \<Rightarrow> Inr False
      | Scalar NaN \<Rightarrow> Inr True
      | Scalar (PyBool b) \<Rightarrow> Inr b
      | Scalar (PyInt n) \<Rightarrow> Inr (n \<noteq> 0)
      | Scalar (PyStr s) \<Rightarrow> Inr (s \<noteq> [])
      | Series _ \<Rightarrow> Inl ValueError
      | Frame _ \<Rightarrow> Inl ValueError)"

text \<open>\<^verbatim>\<open>sep.join(xs)\<close>.\<close>

fun join :: "string \<Rightarrow> string list \<Rightarrow> string" where
  "join sep [] = []"
| "join sep [x] = x"
| "join sep (x # y # ys) = x @ sep @ join sep (y # ys)"

text \<open>
  \<^verbatim>\<open>xs.append(x)\<close> changes the list in place and returns \<^verbatim>\<open>None\<close>: the pair of the list
  after the call and the value of the call expression.
\<close>

definition list_append :: "string list \<Rightarrow> string \<Rightarrow> string list \<times> string list option" where
  "list_append xs x = (xs @ [x], None)"

section \<open>The operation executor\<close>

text \<open>\<^verbatim>\<open>RuleProcessor.is_relationship_dataset\<close>.\<close>

definition is_relationship_dataset :: "string \<Rightarrow> bool" where
  "is_relationship_dataset domain' =
     (if domain' \<in> set [''RELREC'', ''RELSUB'', ''CO''] then True
      else if prefix ''SUPP'' domain' then True
      else False)"

text \<open>\<^verbatim>\<open>RuleProcessor.is_current_domain\<close>.\<close>

definition is_current_domain :: "dataframe \<Rightarrow> string \<Rightarrow> error + bool" where
  "is_current_domain dataset target_domain =
     (if \<not> is_relationship_dataset target_domain then
        (if df_contains dataset ''DOMAIN'' then
           (case df_getitem dataset ''DOMAIN'' of
              Inl e \<Rightarrow> Inl e
            | Inr column \<Rightarrow>
                (case series_getitem0 column of
                   Inl e \<Rightarrow> Inl e
                 | Inr v \<Rightarrow> Inr (v = PyStr target_domain)))
         else Inr False)
      else Inr False)"

text \<open>
  \<^verbatim>\<open>search_in_list_of_dicts\<close> (cdisc_rules_engine.utilities.utils, not part of the sources
  at hand) with the predicate of \<^verbatim>\<open>_execute_operation\<close>: the first descriptor of the
  wanted domain, or \<^verbatim>\<open>None\<close>.
\<close>

definition search_in_list_of_dicts :: "descriptor list \<Rightarrow> (descriptor \<Rightarrow> bool) \<Rightarrow> descriptor option" where
  "search_in_list_of_dicts items pred = find pred items"

text \<open>
  The part of \<^verbatim>\<open>RuleProcessor._execute_operation\<close> after the cache test: fetch the other
  domain when the loaded dataset is not the target (replacing the frame held by the
  parameters), call the operation, and store the result unless the data service is the
  placeholder. Subscripting the \<^verbatim>\<open>None\<close> of a failed descriptor search is a TypeError.
\<close>

definition compute_operation ::
  "services \<Rightarrow> world \<Rightarrow> (operation_params \<Rightarrow> error + op_result) \<Rightarrow> operation_params
     \<Rightarrow> cache_key \<Rightarrow> world \<times> operation_params \<times> (error + op_result)" where
  "compute_operation sv w operation_to_call p cache_key =
     (case is_current_domain (dataframe p) (domain p) of
        Inl e \<Rightarrow> (w, p, Inl e)
      | Inr is_current \<Rightarrow>
          (case (if \<not> is_current then
                   (case search_in_list_of_dicts (datasets p) (\<lambda>item. d_domain item = domain p) of
                      None \<Rightarrow> (w, p, Some TypeError)
                    | Some domain_details \<Rightarrow>
                        (let file_path = get_directory_path sv (dataset_path p) @ ''/''
                                         @ d_filename domain_details
                         in case data_service_get_dataset sv w file_path of
                              (w1, Inl e) \<Rightarrow> (w1, p, Some e)
                            | (w1, Inr fetched) \<Rightarrow> (w1, p\<lparr>dataframe := fetched\<rparr>, None)))
                 else (w, p, None)) of
             (w1, p1, Some e) \<Rightarrow> (w1, p1, Inl e)
           | (w1, p1, None) \<Rightarrow>
               (let w2 = w1\<lparr>trace := trace w1
                              @ [OperationCalled (operation_name p1) (operation_id p1)]\<rparr>
                in case operation_to_call p1 of
                     Inl e \<Rightarrow> (w2, p1, Inl e)
                   | Inr result \<Rightarrow>
                       ((if \<not> is_dummy_data sv
                         then w2\<lparr>cache := (cache w2)(cache_key \<mapsto> result)\<rparr> else w2),
                        p1, Inr result))))"

text \<open>The cache key that \<^verbatim>\<open>_execute_operation\<close> builds from the parameter bundle.\<close>

definition operation_cache_key :: "operation_params \<Rightarrow> cache_key" where
  "operation_cache_key p =
     get_operations_cache_key (directory_path p) (operation_name p) (domain p)
       (join '';'' (grouping p)) (target p)"

text \<open>
  \<^verbatim>\<open>RuleProcessor._execute_operation\<close>: the world and the parameter bundle after the call,
  and the result or the exception. The cached value is returned when \<^verbatim>\<open>if result:\<close>
  finds it true; an absent entry is \<^verbatim>\<open>None\<close>, which is false.
\<close>

definition execute_operation ::
  "services \<Rightarrow> world \<Rightarrow> (operation_params \<Rightarrow> error + op_result) \<Rightarrow> operation_params
     \<Rightarrow> world \<times> operation_params \<times> (error + op_result)" where
  "execute_operation sv w operation_to_call p =
     (let cache_key = operation_cache_key p
      in case cache w cache_key of
           None \<Rightarrow> compute_operation sv w operation_to_call p cache_key
         | Some result \<Rightarrow>
             (case truth_value result of
                Inl e \<Rightarrow> (w, p, Inl e)
              | Inr True \<Rightarrow> (w, p, Inr result)
              | Inr False \<Rightarrow> compute_operation sv w operation_to_call p cache_key))"

text \<open>
  \<^verbatim>\<open>RuleProcessor._handle_operation_result\<close>: the parameter bundle after the call (its
  grouping list and its frame are changed in place) and the dataset or the exception.
  In the grouped branch \<^verbatim>\<open>target_columns\<close> is the value of the \<^verbatim>\<open>append\<close> call, and
  the arguments of \<^verbatim>\<open>merge\<close> are evaluated before the call.
\<close>

definition handle_operation_result ::
  "op_result \<Rightarrow> operation_params \<Rightarrow> operation_params \<times> (error + dataframe)" where
  "handle_operation_result result p =
     (if grouping p \<noteq> [] then
        (case rename_columns result (target p) (operation_id p) of
           Inl e \<Rightarrow> (p, Inl e)
         | Inr renamed \<Rightarrow>
             (case list_append (grouping p) (operation_id p) of
                (grouping', target_columns) \<Rightarrow>
                  (let p1 = p\<lparr>grouping := grouping'\<rparr>
                   in case df_getitem_list renamed target_columns of
                        Inl e \<Rightarrow> (p1, Inl e)
                      | Inr selected \<Rightarrow>
                          (p1, df_merge_left (dataframe p1) selected (grouping p1)))))
      else
        (case df_setitem (dataframe p) (operation_id p) result of
           Inl e \<Rightarrow> (p, Inl e)
         | Inr df \<Rightarrow> (p\<lparr>dataframe := df\<rparr>, Inr df)))"

text \<open>
  The arguments of \<^verbatim>\<open>perform_rule_operations\<close> other than the rule and the dataset.
\<close>

record call_args =
  a_domain :: string
  a_datasets :: "descriptor list"
  a_dataset_path :: string
  a_standard :: string
  a_standard_version :: string
  a_meddra_path :: "string option"
  a_whodrug_path :: "string option"

text \<open>
  The parameter bundle built for one operation declaration. \<^verbatim>\<open>operation.get("group", [])\<close>
  is the rule's own list when the declaration has one, and a fresh empty list otherwise.
\<close>

definition make_operation_params ::
  "services \<Rightarrow> call_args \<Rightarrow> dataframe \<Rightarrow> operation \<Rightarrow> operation_params" where
  "make_operation_params sv args dataset_copy operation =
     \<lparr>operation_id = op_id operation,
      operation_name = op_operator operation,
      dataframe = dataset_copy,
      target = op_name operation,
      domain = (case op_domain operation of None \<Rightarrow> a_domain args | Some d \<Rightarrow> d),
      dataset_path = a_dataset_path args,
      directory_path = get_directory_path sv (a_dataset_path args),
      datasets = a_datasets args,
      grouping = (case op_group operation of None \<Rightarrow> [] | Some g \<Rightarrow> g),
      standard = a_standard args,
      standard_version = a_standard_version args,
      meddra_path = a_meddra_path args,
      whodrug_path = a_whodrug_path args\<rparr>"

text \<open>
  The operation declaration as the rule holds it after the call: its grouping list is
  the list object the parameter bundle changed.
\<close>

definition declaration_after :: "operation \<Rightarrow> operation_params \<Rightarrow> operation" where
  "declaration_after operation p =
     (case op_group operation of
        None \<Rightarrow> operation
      | Some _ \<Rightarrow> operation\<lparr>op_group := Some (grouping p)\<rparr>)"

text \<open>
  The loop of \<^verbatim>\<open>perform_rule_operations\<close> over the operation declarations: the world and
  the declarations after the loop, and the dataset or the exception that ended it. An
  operation name that the registry does not know raises ValueError.
\<close>

fun perform_operations ::
  "services \<Rightarrow> call_args \<Rightarrow> world \<Rightarrow> dataframe \<Rightarrow> operation list
     \<Rightarrow> world \<times> operation list \<times> (error + dataframe)" where
  "perform_operations sv args w dataset_copy [] = (w, [], Inr dataset_copy)"
| "perform_operations sv args w dataset_copy (operation # rest) =
     (let p = make_operation_params sv args dataset_copy operation
      in case data_processor sv (operation_name p) of
           None \<Rightarrow> (w, operation # rest, Inl ValueError)
         | Some operation_to_call \<Rightarrow>
             (case execute_operation sv w operation_to_call p of
                (w1, p1, Inl e) \<Rightarrow> (w1, declaration_after operation p1 # rest, Inl e)
              | (w1, p1, Inr result) \<Rightarrow>
                  (case handle_operation_result result p1 of
                     (p2, Inl e) \<Rightarrow> (w1, declaration_after operation p2 # rest, Inl e)
                   | (p2, Inr dataset') \<Rightarrow>
                       (case perform_operations sv args w1 dataset' rest of
                          (w2, rest', outcome) \<Rightarrow>
                            (w2, declaration_after operation p2 # rest', outcome)))))"

text \<open>
  \<^verbatim>\<open>RuleProcessor.perform_rule_operations\<close>: the world and the rule after the call, and
  the returned dataset or the exception. The copy of the caller's dataset is the value
  itself.
\<close>

definition perform_rule_operations ::
  "services \<Rightarrow> world \<Rightarrow> rule \<Rightarrow> dataframe \<Rightarrow> call_args
     \<Rightarrow> world \<times> rule \<times> (error + dataframe)" where
  "perform_rule_operations sv w rule dataset args =
     (case perform_operations sv args w dataset (operations rule) of
        (w', operations', outcome) \<Rightarrow> (w', rule\<lparr>operations := operations'\<rparr>, outcome))"

text \<open>How many times a trace called an operation implementation, or fetched a dataset.\<close>

definition operation_calls :: "event list \<Rightarrow> nat" where
  "operation_calls evs =
     length (filter (\<lambda>ev. case ev of OperationCalled _ _ \<Rightarrow> True | _ \<Rightarrow> False) evs)"

definition dataset_fetches :: "event list \<Rightarrow> nat" where
  "dataset_fetches evs =
     length (filter (\<lambda>ev. case ev of DatasetFetched _ \<Rightarrow> True | _ \<Rightarrow> False) evs)"

section \<open>The condition tree rewriter\<close>

subsection \<open>Reading and rebuilding the tree\<close>

text \<open>
  Modelled from the spec: \<^verbatim>\<open>ConditionInterface.values()\<close> is not part of the sources at
  hand. The rewriter loops over it; section 4.3 of the specification has these loops
  visit every leaf of the tree, in tree traversal order.
\<close>

fun values_node :: "node \<Rightarrow> condition list"
  and values_branch :: "branch \<Rightarrow> condition list" where
  "values_node (Single c) = [c]"
| "values_node (Nested bs) = concat (map values_branch bs)"
| "values_branch (Branch key ns) = concat (map values_node ns)"

definition values_of :: "branch list \<Rightarrow> condition list" where
  "values_of bs = concat (map values_branch bs)"




text \<open>
  A loop \<^verbatim>\<open>for condition in conditions.values(): \<dots>\<close> that changes the leaf
  dictionaries in place: the leaves are visited in the order of \<open>values_of\<close>, each
  replaced by what the loop body makes of it. When the body raises (\<open>Inl\<close>), the leaf
  and every later leaf stay as they are, and the exception is the outcome.
\<close>

fun update_node :: "(condition \<Rightarrow> error + condition) \<Rightarrow> node \<Rightarrow> error option
                      \<Rightarrow> node \<times> error option"
  and update_nodes :: "(condition \<Rightarrow> error + condition) \<Rightarrow> node list \<Rightarrow> error option
                      \<Rightarrow> node list \<times> error option"
  and update_branch :: "(condition \<Rightarrow> error + condition) \<Rightarrow> branch \<Rightarrow> error option
                      \<Rightarrow> branch \<times> error option"
  and update_branches :: "(condition \<Rightarrow> error + condition) \<Rightarrow> branch list \<Rightarrow> error option
                      \<Rightarrow> branch list \<times> error option" where
  "update_node body (Single c) raised =
     (case raised of
        Some e \<Rightarrow> (Single c, Some e)
      | None \<Rightarrow> (case body c of Inl e \<Rightarrow> (Single c, Some e) | Inr c' \<Rightarrow> (Single c', None)))"
| "update_node body (Nested bs) raised =
     (case update_branches body bs raised of (bs', raised') \<Rightarrow> (Nested bs', raised'))"
| "update_nodes body [] raised = ([], raised)"
| "update_nodes body (n # ns) raised =
     (case update_node body n raised of
        (n', raised1) \<Rightarrow>
          (case update_nodes body ns raised1 of (ns', raised2) \<Rightarrow> (n' # ns', raised2)))"
| "update_branch body (Branch key ns) raised =
     (case update_nodes body ns raised of (ns', raised') \<Rightarrow> (Branch key ns', raised'))"
| "update_branches body [] raised = ([], raised)"
| "update_branches body (b # bs) raised =
     (case update_branch body b raised of
        (b', raised1) \<Rightarrow>
          (case update_branches body bs raised1 of (bs', raised2) \<Rightarrow> (b' # bs', raised2)))"

subsection \<open>Adding comparators\<close>

text \<open>
  The body of the loop of \<^verbatim>\<open>add_comparator_to_rule_conditions\<close>. The arguments
  \<^verbatim>\<open>comparator\<close> and \<^verbatim>\<open>target_prefix\<close> default to \<^verbatim>\<open>None\<close>; an empty dictionary and an
  empty string are false like \<^verbatim>\<open>None\<close>. Subscripting a missing \<^verbatim>\<open>value\<close> or \<^verbatim>\<open>target\<close>
  key raises KeyError.
\<close>

definition comparator_for ::
  "pydict option \<Rightarrow> string option \<Rightarrow> pydict \<Rightarrow> error + string option" where
  "comparator_for comparator target_prefix val =
     (if comparator \<noteq> None \<and> comparator \<noteq> Some [] then
        (case map_of val ''target'' of
           None \<Rightarrow> Inl KeyError
         | Some t \<Rightarrow> Inr (case comparator of None \<Rightarrow> None | Some d \<Rightarrow> map_of d t))
      else if target_prefix \<noteq> None \<and> target_prefix \<noteq> Some [] then
        (case map_of val ''target'' of
           None \<Rightarrow> Inl KeyError
         | Some t \<Rightarrow> Inr (case target_prefix of None \<Rightarrow> None | Some pre \<Rightarrow> Some (pre @ t)))
      else Inr None)"

definition add_comparator :: "pydict option \<Rightarrow> string option \<Rightarrow> condition \<Rightarrow> error + condition" where
  "add_comparator comparator target_prefix condition =
     (case c_value condition of
        None \<Rightarrow> Inl KeyError
      | Some val \<Rightarrow>
          (case comparator_for comparator target_prefix val of
             Inl e \<Rightarrow> Inl e
           | Inr comparator_to_add \<Rightarrow>
               (case comparator_to_add of
                  None \<Rightarrow> Inr condition
                | Some cmp \<Rightarrow>
                    if cmp \<noteq> []
                    then Inr (condition\<lparr>c_value := Some (AList.update ''comparator'' cmp val)\<rparr>)
                    else Inr condition)))"

text \<open>
  \<^verbatim>\<open>RuleProcessor.add_comparator_to_rule_conditions\<close>: the rule after the call and the
  exception raised, if any. \<^verbatim>\<open>rule["conditions"]\<close> raises KeyError on a rule without
  conditions.
\<close>

definition add_comparator_to_rule_conditions ::
  "rule \<Rightarrow> pydict option \<Rightarrow> string option \<Rightarrow> rule \<times> error option" where
  "add_comparator_to_rule_conditions rule comparator target_prefix =
     (case conditions rule of
        None \<Rightarrow> (rule, Some KeyError)
      | Some bs \<Rightarrow>
          (case update_branches (add_comparator comparator target_prefix) bs None of
             (bs', raised) \<Rightarrow> (rule\<lparr>conditions := Some bs'\<rparr>, raised)))"

subsection \<open>Multiplying conditions by targets\<close>






subsection \<open>Extracting target names\<close>














section \<open>Example inputs\<close>

text \<open>
  A two-row adverse-events dataset, a one-row demographics dataset, and the grouped
  result of a maximum of \<^verbatim>\<open>AESEQ\<close> per \<^verbatim>\<open>USUBJID\<close>.
\<close>

definition ae_dataset :: dataframe where
  "ae_dataset = \<lparr>index_len = 2,
     cols = [(''DOMAIN'', [PyStr ''AE'', PyStr ''AE'']),
             (''USUBJID'', [PyStr ''S1'', PyStr ''S2'']),
             (''AESEQ'', [PyInt 1, PyInt 2])]\<rparr>"

definition dm_dataset :: dataframe where
  "dm_dataset = \<lparr>index_len = 1,
     cols = [(''DOMAIN'', [PyStr ''DM'']), (''USUBJID'', [PyStr ''S1''])]\<rparr>"

definition empty_ae_dataset :: dataframe where
  "empty_ae_dataset = \<lparr>index_len = 0, cols = [(''DOMAIN'', []), (''USUBJID'', [])]\<rparr>"

definition grouped_max :: dataframe where
  "grouped_max = \<lparr>index_len = 2,
     cols = [(''USUBJID'', [PyStr ''S1'', PyStr ''S2'']), (''AESEQ'', [PyInt 1, PyInt 2])]\<rparr>"

text \<open>
  A registry with two operations: \<^verbatim>\<open>max\<close>, returning the grouped frame above, and
  \<^verbatim>\<open>variable_exists\<close>, returning whether the target is a column of the frame it is given.
\<close>

definition example_processor :: "string \<Rightarrow> (operation_params \<Rightarrow> error + op_result) option" where
  "example_processor name =
     (if name = ''max'' then Some (\<lambda>p. Inr (Frame grouped_max))
      else if name = ''variable_exists''
      then Some (\<lambda>p. Inr (Scalar (PyBool (df_contains (dataframe p) (target p)))))
      else None)"

definition example_services :: services where
  "example_services =
     \<lparr>get_dataset = (\<lambda>name. if name = ''data/dm.xpt'' then Inr dm_dataset
                             else if name = ''data/ae.xpt'' then Inr ae_dataset
                             else Inl ServiceError),
      get_dataset_class = (\<lambda>dataset path descriptors. Inr (Some ''EVENTS'')),
      is_dummy_data = False,
      data_processor = example_processor,
      get_directory_path = (\<lambda>path. ''data'')\<rparr>"

definition example_args :: call_args where
  "example_args =
     \<lparr>a_domain = ''AE'',
      a_datasets = [\<lparr>d_domain = ''AE'', d_filename = ''ae.xpt''\<rparr>,
                    \<lparr>d_domain = ''DM'', d_filename = ''dm.xpt''\<rparr>],
      a_dataset_path = ''data/ae.xpt'',
      a_standard = ''sdtmig'',
      a_standard_version = ''3-4'',
      a_meddra_path = None,
      a_whodrug_path = None\<rparr>"

definition empty_world :: world where
  "empty_world = \<lparr>cache = (\<lambda>k. None), trace = []\<rparr>"

definition rule_with :: "operation list \<Rightarrow> rule" where
  "rule_with ops = \<lparr>r_domains = None, r_classes = None, conditions = None,
                     operations = ops, output_variables = []\<rparr>"

definition grouped_operation :: operation where
  "grouped_operation = \<lparr>op_id = ''$max_aeseq'', op_operator = ''max'', op_name = ''AESEQ'',
                          op_domain = None, op_group = Some [''USUBJID'']\<rparr>"

definition exists_operation :: "string \<Rightarrow> operation" where
  "exists_operation ident = \<lparr>op_id = ident, op_operator = ''variable_exists'',
                               op_name = ''AETERM'', op_domain = None, op_group = None\<rparr>"

definition dm_operation :: operation where
  "dm_operation = \<lparr>op_id = ''$has_usubjid'', op_operator = ''variable_exists'',
                     op_name = ''USUBJID'', op_domain = Some ''DM'', op_group = None\<rparr>"

definition classes_rule :: rule where
  "classes_rule = \<lparr>r_domains = None,
                   r_classes = Some \<lparr>c_Include = [''EVENTS''], c_Exclude = [''FINDINGS'']\<rparr>,
                   conditions = None, operations = [], output_variables = []\<rparr>"


definition tsval_rule :: rule where
  "tsval_rule =
     \<lparr>r_domains = None, r_classes = None,
      conditions = Some [Branch ''all''
        [Single \<lparr>c_operator = Some ''additional_columns_empty'',
                  c_value = Some [(''target'', ''TSVAL'')], c_other = []\<rparr>]],
      operations = [], output_variables = []\<rparr>"

section \<open>Properties\<close>

lemmas example_defs = ae_dataset_def dm_dataset_def empty_ae_dataset_def grouped_max_def
  example_processor_def example_services_def example_args_def empty_world_def rule_with_def
  grouped_operation_def exists_operation_def dm_operation_def classes_rule_def

lemmas executor_defs = perform_rule_operations_def make_operation_params_def
  execute_operation_def compute_operation_def handle_operation_result_def
  declaration_after_def operation_cache_key_def get_operations_cache_key_def
  is_current_domain_def is_relationship_dataset_def df_contains_def df_getitem_def
  series_getitem0_def rename_columns_def list_append_def df_getitem_list_def df_setitem_def
  truth_value_def search_in_list_of_dicts_def data_service_get_dataset_def
  operation_calls_def dataset_fetches_def

subsection \<open>The operation executor\<close>

text \<open>
  The grouped branch never returns a dataset: \<^verbatim>\<open>target_columns\<close> is the \<^verbatim>\<open>None\<close> that
  \<^verbatim>\<open>append\<close> returns, so the column selection raises before the merge is called. With
  a DataFrame result the grouping list has been extended by then.
\<close>

lemma handle_operation_result_grouped:
  "grouping p \<noteq> [] \<Longrightarrow> \<exists>p' e. handle_operation_result result p = (p', Inl e)"
  by (cases result) (simp_all add: handle_operation_result_def rename_columns_def
      list_append_def df_getitem_list_def)




text \<open>
  What the cache test does with an entry it finds: a true scalar is returned without a
  fetch or a call, a false scalar is computed again, and a Series or a DataFrame makes
  the test itself raise.
\<close>

lemma execute_operation_cached_true:
  "cache w (operation_cache_key p) = Some result \<Longrightarrow> truth_value result = Inr True \<Longrightarrow>
     execute_operation sv w operation_to_call p = (w, p, Inr result)"
  by (simp add: execute_operation_def)

lemma execute_operation_cached_false:
  "cache w (operation_cache_key p) = Some result \<Longrightarrow> truth_value result = Inr False \<Longrightarrow>
     execute_operation sv w operation_to_call p
       = compute_operation sv w operation_to_call p (operation_cache_key p)"
  by (simp add: execute_operation_def)

lemma execute_operation_cached_frame:
  "cache w (operation_cache_key p) = Some (Series vs) \<or>
   cache w (operation_cache_key p) = Some (Frame df) \<Longrightarrow>
     execute_operation sv w operation_to_call p = (w, p, Inl ValueError)"
  by (auto simp: execute_operation_def truth_value_def)

text \<open>
  Without grouping columns the result is assigned as a column of the frame that the
  parameter bundle holds at that moment, and that frame is returned.
\<close>

lemma handle_operation_result_ungrouped:
  "grouping p = [] \<Longrightarrow> df_setitem (dataframe p) (operation_id p) result = Inr df \<Longrightarrow>
     handle_operation_result result p = (p\<lparr>dataframe := df\<rparr>, Inr df)"
  by (simp add: handle_operation_result_def)


text \<open>
  C1. The claim: for an operation with grouping columns the result is left-joined onto
  the working dataset and the returned dataset has the rows of the working dataset.
  On the two-row dataset \<open>ae_dataset\<close>, with the operation \<^verbatim>\<open>max\<close> of \<^verbatim>\<open>AESEQ\<close> grouped
  by \<^verbatim>\<open>USUBJID\<close> whose result has a row for each subject, the call returns no dataset:
  it raises KeyError.
\<close>

theorem grouped_merge_raises:
  "snd (snd (perform_rule_operations example_services empty_world
               (rule_with [grouped_operation]) ae_dataset example_args)) = Inl KeyError"
  by (simp add: example_defs executor_defs)

text \<open>
  C2. The claim: of two operations with the same signature the second is served from
  the cache. With a data service that is not the placeholder and two declarations of
  \<^verbatim>\<open>variable_exists\<close> for a column the dataset lacks, the stored result is \<^verbatim>\<open>False\<close>, the
  test \<^verbatim>\<open>if result:\<close> fails on it, and the operation is called twice, although both
  declarations have the same cache key.
\<close>

theorem identical_signature_computed_twice:
  "operation_calls (trace (fst (perform_rule_operations example_services empty_world
      (rule_with [exists_operation ''$a'', exists_operation ''$b'']) ae_dataset example_args))) = 2
   \<and> operation_cache_key (make_operation_params example_services example_args ae_dataset
         (exists_operation ''$a''))
     = operation_cache_key (make_operation_params example_services example_args
         (ae_dataset\<lparr>cols := cols ae_dataset @ [(''$a'', [PyBool False, PyBool False])]\<rparr>)
         (exists_operation ''$b''))"
  by (simp add: example_defs executor_defs)

text \<open>
  C3. The claim: without grouping columns the returned dataset is the working dataset
  with one new column, also when the operation targets another domain. With the
  two-row \<open>ae_dataset\<close> loaded and an operation on domain \<^verbatim>\<open>DM\<close>, the returned dataset
  is the fetched one-row \<open>dm_dataset\<close> with the new column.
\<close>

theorem other_domain_replaces_working_dataset:
  "snd (snd (perform_rule_operations example_services empty_world
               (rule_with [dm_operation]) ae_dataset example_args))
     = Inr (dm_dataset\<lparr>cols := cols dm_dataset @ [(''$has_usubjid'', [PyBool True])]\<rparr>)"
  by (simp add: example_defs executor_defs)



text \<open>
  C10. For a target domain that is not a relationship dataset, \<^verbatim>\<open>is_current_domain\<close>
  compares the element at index 0 of the \<^verbatim>\<open>DOMAIN\<close> column with the target. When the
  column is present and has no element at index 0, the check raises KeyError, and so
  does \<^verbatim>\<open>_execute_operation\<close> when the cache holds nothing for the key.
\<close>

theorem is_current_domain_index_0:
  assumes "\<not> is_relationship_dataset (domain p)"
  shows "(map_of (cols (dataframe p)) ''DOMAIN'' = Some (v # vs) \<longrightarrow>
            is_current_domain (dataframe p) (domain p) = Inr (v = PyStr (domain p)))
       \<and> (map_of (cols (dataframe p)) ''DOMAIN'' = Some [] \<longrightarrow>
            is_current_domain (dataframe p) (domain p) = Inl KeyError
            \<and> (cache w (operation_cache_key p) = None \<longrightarrow>
                 execute_operation sv w operation_to_call p = (w, p, Inl KeyError)))"
  using assms
  by (simp add: is_current_domain_def df_contains_def df_getitem_def series_getitem0_def
      execute_operation_def compute_operation_def)

theorem is_current_domain_index_0_witness:
  "is_current_domain ae_dataset ''AE'' = Inr True
   \<and> is_current_domain empty_ae_dataset ''AE'' = Inl KeyError
   \<and> snd (snd (execute_operation example_services empty_world
         (\<lambda>p. Inr (Scalar (PyBool True)))
         (make_operation_params example_services example_args empty_ae_dataset
            (exists_operation ''$a'')))) = Inl KeyError"
proof -
  let ?p = "make_operation_params example_services example_args ae_dataset (exists_operation ''$a'')"
  let ?q = "make_operation_params example_services example_args empty_ae_dataset
              (exists_operation ''$a'')"
  have n1: "\<not> is_relationship_dataset (domain ?p)" and n2: "\<not> is_relationship_dataset (domain ?q)"
    by (simp_all add: make_operation_params_def example_args_def exists_operation_def
        is_relationship_dataset_def)
  have c1: "map_of (cols (dataframe ?p)) ''DOMAIN'' = Some (PyStr ''AE'' # [PyStr ''AE''])"
    by (simp add: make_operation_params_def ae_dataset_def)
  have c2: "map_of (cols (dataframe ?q)) ''DOMAIN'' = Some []"
    by (simp add: make_operation_params_def empty_ae_dataset_def)
  have miss: "cache empty_world (operation_cache_key ?q) = None"
    by (simp add: empty_world_def)
  have d1: "dataframe ?p = ae_dataset" "domain ?p = ''AE''"
    and d2: "dataframe ?q = empty_ae_dataset" "domain ?q = ''AE''"
    by (simp_all add: make_operation_params_def example_args_def exists_operation_def)
  show ?thesis
    using is_current_domain_index_0 [OF n1, of "PyStr ''AE''" "[PyStr ''AE'']"] c1
      is_current_domain_index_0 [OF n2, of _ _ empty_world example_services
        "\<lambda>p. Inr (Scalar (PyBool True))"] c2 miss
    by (simp add: d1 d2)
qed

subsection \<open>The condition tree rewriter\<close>
















text \<open>
  Once the body of an in-place loop maps its own results to themselves, running the
  loop on the tree it produced gives that tree again, with the same outcome.
\<close>

lemma update_raised:
  "update_node body n (Some e) = (n, Some e)"
  "update_nodes body ns (Some e) = (ns, Some e)"
  "update_branch body b (Some e) = (b, Some e)"
  "update_branches body bs (Some e) = (bs, Some e)"
  by (induction body n "Some e :: error option" and body ns "Some e :: error option"
      and body b "Some e :: error option" and body bs "Some e :: error option"
      rule: update_node_update_nodes_update_branch_update_branches.induct) simp_all

lemma update_twice:
  assumes idem: "\<And>c c'. body c = Inr c' \<Longrightarrow> body c' = Inr c'"
  shows "update_node body (fst (update_node body n raised)) raised = update_node body n raised"
    and "update_nodes body (fst (update_nodes body ns raised)) raised = update_nodes body ns raised"
    and "update_branch body (fst (update_branch body b raised)) raised = update_branch body b raised"
    and "update_branches body (fst (update_branches body bs raised)) raised
           = update_branches body bs raised"
  using idem
proof (induction body n raised and body ns raised and body b raised and body bs raised
    rule: update_node_update_nodes_update_branch_update_branches.induct)
  case (1 body c raised)
  then show ?case
    by (auto split: option.splits sum.splits)
next
  case (2 body bs raised)
  then show ?case by (auto split: prod.splits)
next
  case (3 body raised)
  then show ?case by simp
next
  case (4 body n ns raised)
  then show ?case by (auto split: prod.splits)
next
  case (5 body key ns raised)
  then show ?case by (auto split: prod.splits)
next
  case (6 body raised)
  then show ?case by simp
next
  case (7 body b bs raised)
  then show ?case by (auto split: prod.splits)
qed

lemma add_comparator_idem:
  "add_comparator comparator target_prefix c = Inr c' \<Longrightarrow>
     add_comparator comparator target_prefix c' = Inr c'"
  by (auto simp: add_comparator_def comparator_for_def update_conv' 
      split: option.splits sum.splits if_splits)

text \<open>
  C8. Calling \<^verbatim>\<open>add_comparator_to_rule_conditions\<close> a second time with the same
  arguments, on the rule the first call left, leaves the rule (and so every leaf's
  \<^verbatim>\<open>value.comparator\<close>) as the first call left it, and ends the same way: the comparator
  is computed from the unchanged \<^verbatim>\<open>value.target\<close>. This holds for every prefix, and for
  every comparator mapping as well. With the prefix \<^verbatim>\<open>RDOMAIN.\<close> the leaf with target
  TSVAL has the comparator \<^verbatim>\<open>RDOMAIN.TSVAL\<close> after one call and after two.
\<close>

theorem add_comparator_twice:
  "add_comparator_to_rule_conditions
     (fst (add_comparator_to_rule_conditions rule comparator target_prefix))
     comparator target_prefix
   = add_comparator_to_rule_conditions rule comparator target_prefix"
proof (cases "conditions rule")
  case None
  then show ?thesis by (simp add: add_comparator_to_rule_conditions_def)
next
  case (Some bs)
  let ?body = "add_comparator comparator target_prefix"
  obtain bs' raised where run: "update_branches ?body bs None = (bs', raised)"
    by (cases "update_branches ?body bs None")
  have again: "update_branches ?body bs' None = (bs', raised)"
    using update_twice(4) [of ?body bs None] add_comparator_idem run by simp
  show ?thesis
    using Some run again by (simp add: add_comparator_to_rule_conditions_def)
qed

theorem add_comparator_twice_witness:
  "map (\<lambda>leaf. case c_value leaf of None \<Rightarrow> None | Some v \<Rightarrow> map_of v ''comparator'')
     (case conditions (fst (add_comparator_to_rule_conditions
              (fst (add_comparator_to_rule_conditions tsval_rule None (Some ''RDOMAIN.'')))
              None (Some ''RDOMAIN.''))) of
        None \<Rightarrow> [] | Some bs \<Rightarrow> values_of bs)
   = [Some ''RDOMAIN.TSVAL'']"
  using add_comparator_twice [of tsval_rule None "Some ''RDOMAIN.''"]
  by (simp add: add_comparator_to_rule_conditions_def add_comparator_def comparator_for_def
      tsval_rule_def values_of_def)

subsection \<open>The applicability gates\<close>

lemma fetch_dataset_class_count:
  "fetch_dataset_class sv w fp ds = (w1, Inr c) \<Longrightarrow>
     class_fetches (trace w1) = Suc (class_fetches (trace w))"
  by (auto simp: fetch_dataset_class_def data_service_get_dataset_def class_fetches_def
      split: sum.splits prod.splits)

text \<open>
  C4, as stated: the class is fetched exactly once per check. For a rule that includes
  the detectable class \<^verbatim>\<open>EVENTS\<close> and excludes \<^verbatim>\<open>FINDINGS\<close>, one check fetches the class
  twice.
\<close>

theorem class_fetched_once_counterexample:
  "class_fetches (trace (fst (rule_applies_to_class [''EVENTS'', ''FINDINGS''] example_services
      empty_world classes_rule ''data/ae.xpt'' []))) = 2
   \<and> class_fetches (trace (fst (rule_applies_to_class [''EVENTS'', ''FINDINGS''] example_services
      empty_world classes_rule ''data/ae.xpt'' []))) \<noteq> 1"
  by (simp add: rule_applies_to_class_def detectable_included_classes_def excluded_classes_of_def
      fetch_dataset_class_def data_service_get_dataset_def class_fetches_def example_defs)

text \<open>
  C4, amended: a check that returns a verdict has fetched the class once for each of the
  two lists that is not empty, the detectable included classes and the excluded classes:
  not at all when both are empty, once when one is, twice when both are.
\<close>

theorem class_fetched_per_list:
  assumes "rule_applies_to_class DETECTABLE_CLASSES sv w rule file_path descriptors
             = (w', Inr verdict)"
  shows "class_fetches (trace w') =
           class_fetches (trace w)
           + (if detectable_included_classes DETECTABLE_CLASSES rule = [] then 0 else 1)
           + (if excluded_classes_of rule = [] then 0 else 1)"
  using assms
  by (auto simp: rule_applies_to_class_def Let_def
      split: if_splits prod.splits sum.splits dest!: fetch_dataset_class_count)

theorem class_fetched_per_list_witness:
  "rule_applies_to_class [''EVENTS'', ''FINDINGS''] example_services empty_world
     (classes_rule\<lparr>r_classes := Some \<lparr>c_Include = [''EVENTS''], c_Exclude = []\<rparr>\<rparr>)
     ''data/ae.xpt'' []
   = (\<lparr>cache = (\<lambda>k. None),
       trace = [DatasetFetched ''data/ae.xpt'', ClassFetched ''data/ae.xpt'']\<rparr>, Inr True)
   \<and> class_fetches [DatasetFetched ''data/ae.xpt'', ClassFetched ''data/ae.xpt''] = 1"
proof -
  let ?rule = "classes_rule\<lparr>r_classes := Some \<lparr>c_Include = [''EVENTS''], c_Exclude = []\<rparr>\<rparr>"
  let ?w = "\<lparr>cache = (\<lambda>k. None),
             trace = [DatasetFetched ''data/ae.xpt'', ClassFetched ''data/ae.xpt'']\<rparr>"
  have run: "rule_applies_to_class [''EVENTS'', ''FINDINGS''] example_services empty_world ?rule
               ''data/ae.xpt'' [] = (?w, Inr True)"
    by (simp add: rule_applies_to_class_def detectable_included_classes_def
        excluded_classes_of_def fetch_dataset_class_def data_service_get_dataset_def
        example_defs)
  show ?thesis
    using class_fetched_per_list [OF run] run
    by (simp add: detectable_included_classes_def excluded_classes_of_def classes_rule_def
        empty_world_def class_fetches_def)
qed

text \<open>
  C5. A rule whose domains record has Include = ["SUPP--"], an empty Exclude list and no
  split-dataset flag applies to the dataset domain "SUPPAE" through the supplementary
  family pattern; with Include = ["AE"] the same domain is rejected. Both hold whatever
  the other entries of the rule and the split status of the dataset are.
\<close>

theorem rule_applies_to_domain_suppae:
  "rule_applies_to_domain ''SUPPAE''
     (rule\<lparr>r_domains :=
        Some \<lparr>d_Include = [''SUPP--''], d_Exclude = [], include_split_datasets = None\<rparr>\<rparr>)
     is_split_domain = True
   \<and> rule_applies_to_domain ''SUPPAE''
     (rule\<lparr>r_domains :=
        Some \<lparr>d_Include = [''AE''], d_Exclude = [], include_split_datasets = None\<rparr>\<rparr>)
     is_split_domain = False"
  by (simp add: rule_applies_to_domain_def matches_supp_naming_pattern_def
      matches_ap_naming_pattern_def domain_in_supp_domains_def is_supp_domain_def
      is_ap_domain_def SUPPLEMENTARY_DOMAINS_def AP_DOMAIN_def APFA_DOMAIN_def)

end
